theory Spec2Isabelle
  imports Main "HOL-Library.AList"
begin

section \<open>The travel sequence of space-cv\<close>

text \<open>
  A shallow embedding of the travel subsystem: \<open>TravelSystem\<close> (the coordinator),
  \<open>TravelConfirmation\<close> (the dialog), \<open>HyperspaceTravel\<close> (the effect and its own
  timer chain) and \<open>TravelAudio\<close>. Every object of the subsystem is a group of fields of
  one record; \<open>setTimeout\<close> and \<open>clearTimeout\<close> act on an explicit list of
  pending timers, and an event loop fires them in order of their due time.

  Not modelled: console output, CSS styling, the per-frame \<open>update()\<close> animation
  (star positions, warp speed and planet scale are floating-point values drawn from
  \<open>Math.random\<close>), and the inside of the application object \<open>spaceCVApp\<close>, whose
  class is not part of the sources: its content getters are recorded as requests, its
  \<open>enableInteractions\<close> and \<open>restartAnimations\<close> act on state outside this record.
  Page elements looked up by id are those of the application's page and are taken to
  exist. The renderer is that of three.js (\<open>setClearColor\<close> below). \<open>dispose()\<close>
  ends the life of the objects and is not modelled: every state is one of a
  constructed system. The calls into the Web Audio API are taken to succeed; what the browser decides later (a fetch settles, a
  playback is rejected or ends) is an input of its own.
\<close>

subsection \<open>Values\<close>

datatype phase =
  Orbit | Confirmation | Traveling | Cockpit | Hyperspace | Transitioning
  | Approach | Arrived | Content | Idle

record planet =
  planet_id :: string
  planet_name :: string

text \<open>
  A value held by the scene or the renderer: \<open>null\<close>, a colour given by its hex code,
  the number \<open>1.0\<close>, or a value owned by the application (a texture, a fog, a colour
  object, a vector), identified by a number.
\<close>

datatype sceneval = Null | Hex nat | One | App nat

record scene_state =
  st_background :: sceneval
  st_fog :: sceneval
  st_clearColor :: sceneval
  st_clearAlpha :: sceneval

text \<open>
  An object of the scene graph as \<open>hideOrbitalObjects\<close> sees it. \<open>obj_hideable\<close> is the
  static part of its test: the object is a Mesh or a Group, is neither the travel group
  nor one of its children, and its name contains neither Light nor Camera.
\<close>

record scene_object =
  obj_visible :: bool
  obj_hideable :: bool
  obj_wasVisibleBeforeTravel :: bool

datatype cv_section = Work | Education | Skills | Projects | Community | Contact | Portfolio

text \<open>A content body: what an application getter returned, or the fallback paragraph.\<close>

datatype html = AppContent cv_section | NotAvailable | EmptyBody

datatype js_error = TypeError string

datatype audio_source = WebAudio | Html5

record audio_data =
  ad_url :: "string option"
  ad_duration :: nat
  ad_loaded :: bool
  ad_audioBuffer :: bool
  ad_audioElement :: bool

datatype callback =
    ConfirmationEntrance
  | ConfirmationHidden
  | ConfirmLaunch
  | HT_transitionToApproach
  | HT_arriveAtPlanet
  | HT_showPlanetContent
  | Fade_execute
  | Fade_back
  | Fade_remove
  | TS_validateHyperspaceStarted
  | TS_transitionToApproach
  | TS_forceHideHyperspace
  | TS_startPlanetApproachSequence
  | TS_arriveAtPlanet
  | TS_showPlanetContent
  | TA_onAudioEnd

text \<open>A pending timer: its handle, the time it is due, and what it runs.\<close>

type_synonym timer = "nat \<times> nat \<times> callback"

subsection \<open>Property lookup on an object literal\<close>

text \<open>
  \<open>obj[key]\<close> on an object literal finds the literal's own properties and, failing
  that, the members every object inherits from \<open>Object.prototype\<close>; only then is the
  result \<open>undefined\<close>. An inherited member is a function or an object, hence truthy.
\<close>

definition objectPrototypeKeys :: "string list" where
  "objectPrototypeKeys =
     [''constructor'', ''hasOwnProperty'', ''isPrototypeOf'', ''propertyIsEnumerable'',
      ''toLocaleString'', ''toString'', ''valueOf'', ''__proto__'',
      ''__defineGetter__'', ''__defineSetter__'', ''__lookupGetter__'', ''__lookupSetter__'']"

datatype 'a js_lookup = Own 'a | Inherited string | Undefined

definition js_get :: "(string \<times> 'a) list \<Rightarrow> string \<Rightarrow> 'a js_lookup" where
  "js_get obj k =
     (case map_of obj k of
        Some v \<Rightarrow> Own v
      | None \<Rightarrow> if k \<in> set objectPrototypeKeys then Inherited k else Undefined)"

subsection \<open>The state\<close>

record world =
  \<comment> \<open>the clock and the timers of the page\<close>
  now :: nat
  timers :: "timer list"
  nextHandle :: nat
  uncaught :: "js_error list"
  \<comment> \<open>TravelSystem\<close>
  isTravel :: bool
  currentPhase :: phase
  selectedPlanet :: "planet option"
  travelStartTime :: nat
  phaseTimers :: "(string \<times> nat) list"
  \<comment> \<open>TravelConfirmation\<close>
  tc_isVisible :: bool
  tc_selectedPlanet :: "planet option"
  tc_overlayHidden :: bool
  tc_buttonsDisabled :: bool
  \<comment> \<open>HyperspaceTravel\<close>
  ht_isActive :: bool
  ht_currentPhase :: phase
  ht_selectedPlanet :: "planet option"
  ht_startTime :: nat
  ht_travelGroupVisible :: bool
  ht_stars :: "bool list"
  ht_approachPlanet :: "string option"
  ht_originalSceneState :: scene_state
  ht_blackScreenShown :: bool
  ht_cockpitOverlayShown :: bool
  ht_status :: string
  \<comment> \<open>the scene, the renderer and the camera\<close>
  scene :: scene_state
  sceneObjects :: "scene_object list"
  cameraPosition :: sceneval
  cameraQuaternion :: sceneval
  \<comment> \<open>the page\<close>
  bodyCockpitActive :: bool
  contentOverlayHidden :: bool
  contentTitle :: "string js_lookup"
  contentBody :: html
  canvasPointerEvents :: bool
  planetInfoHidden :: bool
  navigationTravelHidden :: bool
  \<comment> \<open>the application's content getters that were called, in order\<close>
  contentRequests :: "cv_section list"
  \<comment> \<open>TravelAudio\<close>
  ta_isPlaying :: bool
  ta_currentAudio :: "audio_source option"
  ta_audioContext :: bool
  ta_audioFiles :: "(string \<times> audio_data) list"
  ta_pendingLoads :: "string list"

text \<open>
  What a method returns: the state, or the exception it threw together with the state
  at the throw (the assignments made before it stay).
\<close>

type_synonym result = "(js_error \<times> world) + world"

definition andThen :: "result \<Rightarrow> (world \<Rightarrow> result) \<Rightarrow> result" where
  "andThen r f = (case r of Inl e \<Rightarrow> Inl e | Inr w \<Rightarrow> f w)"

subsection \<open>Timers\<close>

definition setTimeout :: "callback \<Rightarrow> nat \<Rightarrow> world \<Rightarrow> world" where
  "setTimeout f delay w =
     w\<lparr>timers := timers w @ [(nextHandle w, now w + delay, f)],
       nextHandle := Suc (nextHandle w)\<rparr>"

definition clearTimeout :: "nat \<Rightarrow> world \<Rightarrow> world" where
  "clearTimeout h w = w\<lparr>timers := filter (\<lambda>t. fst t \<noteq> h) (timers w)\<rparr>"

text \<open>\<open>this.phaseTimers.name = setTimeout(f, delay)\<close>\<close>

definition setPhaseTimer :: "string \<Rightarrow> callback \<Rightarrow> nat \<Rightarrow> world \<Rightarrow> world" where
  "setPhaseTimer name f delay w =
     (setTimeout f delay w)
       \<lparr>phaseTimers := AList.update name (nextHandle w) (phaseTimers w)\<rparr>"

subsection \<open>TravelConfirmation\<close>

text \<open>\<open>resetButtonStates\<close>: both buttons enabled again (the rest is styling).\<close>

definition resetButtonStates :: "world \<Rightarrow> world" where
  "resetButtonStates w = w\<lparr>tc_buttonsDisabled := False\<rparr>"

text \<open>
  \<open>show(planet)\<close>: nothing when the dialog is already visible. \<open>updateModalContent\<close>
  only writes text into the dialog.
\<close>

definition tc_show :: "planet \<Rightarrow> world \<Rightarrow> world" where
  "tc_show p w =
     (if tc_isVisible w then w
      else setTimeout ConfirmationEntrance 50
             ((resetButtonStates (w\<lparr>tc_selectedPlanet := Some p, tc_isVisible := True\<rparr>))
                \<lparr>tc_overlayHidden := False\<rparr>))"

definition tc_hide :: "world \<Rightarrow> world" where
  "tc_hide w =
     (if \<not> tc_isVisible w then w
      else resetButtonStates
             ((setTimeout ConfirmationHidden 300 (w\<lparr>tc_isVisible := False\<rparr>))
                \<lparr>tc_selectedPlanet := None\<rparr>))"

subsection \<open>HyperspaceTravel\<close>

definition phaseTimings_hyperspace :: nat where "phaseTimings_hyperspace = 4000"
definition phaseTimings_approach :: nat where "phaseTimings_approach = 3000"
definition phaseTimings_transition :: nat where "phaseTimings_transition = 500"

definition storeOriginalSceneState :: "world \<Rightarrow> world" where
  "storeOriginalSceneState w = w\<lparr>ht_originalSceneState := scene w\<rparr>"

text \<open>
  \<open>renderer.setClearColor(color, alpha)\<close> of three.js: the clear colour is updated by
  \<open>Color.set\<close>, which takes a colour, a hex number or a style string and ignores any
  other value, so a \<open>null\<close> colour leaves the clear colour as it is; the alpha is
  stored as given.
\<close>

definition setClearColor :: "sceneval \<Rightarrow> sceneval \<Rightarrow> scene_state \<Rightarrow> scene_state" where
  "setClearColor color alpha sc =
     sc\<lparr>st_clearColor := (if color = Null then st_clearColor sc else color),
        st_clearAlpha := alpha\<rparr>"

definition setupTravelScene :: "world \<Rightarrow> world" where
  "setupTravelScene w =
     w\<lparr>scene := setClearColor (Hex 0) One
                  ((scene w)\<lparr>st_background := Hex 0, st_fog := Null\<rparr>)\<rparr>"

definition updateStatus :: "string \<Rightarrow> world \<Rightarrow> world" where
  "updateStatus s w = w\<lparr>ht_status := s\<rparr>"

definition showTravelInterface :: "world \<Rightarrow> world" where
  "showTravelInterface w =
     updateStatus ''HYPERSPACE''
       (w\<lparr>ht_blackScreenShown := True, ht_cockpitOverlayShown := True,
          bodyCockpitActive := True\<rparr>)"

definition hideObject :: "scene_object \<Rightarrow> scene_object" where
  "hideObject ob =
     (if obj_hideable ob \<and> obj_visible ob
      then ob\<lparr>obj_wasVisibleBeforeTravel := True, obj_visible := False\<rparr>
      else ob)"

definition hideOrbitalObjects :: "world \<Rightarrow> world" where
  "hideOrbitalObjects w = w\<lparr>sceneObjects := map hideObject (sceneObjects w)\<rparr>"

definition startHyperspacePhase :: "world \<Rightarrow> world" where
  "startHyperspacePhase w =
     w\<lparr>ht_currentPhase := Hyperspace, ht_travelGroupVisible := True,
       ht_stars := map (\<lambda>_. True) (ht_stars w)\<rparr>"

definition startTravel :: "planet \<Rightarrow> world \<Rightarrow> world" where
  "startTravel p w =
     (if ht_isActive w then w
      else setTimeout HT_transitionToApproach phaseTimings_hyperspace
             (startHyperspacePhase (hideOrbitalObjects (showTravelInterface
                (setupTravelScene (storeOriginalSceneState
                   (w\<lparr>ht_isActive := True, ht_selectedPlanet := Some p,
                      ht_currentPhase := Hyperspace, ht_startTime := now w\<rparr>)))))))"

text \<open>
  \<open>createApproachPlanet\<close>: nothing without a selected planet; otherwise the previous
  mesh is removed and a new one, coloured by the planet's id, is added to the group.
\<close>

definition createApproachPlanet :: "world \<Rightarrow> world" where
  "createApproachPlanet w =
     (case ht_selectedPlanet w of
        None \<Rightarrow> w
      | Some p \<Rightarrow> w\<lparr>ht_approachPlanet := Some (planet_id p)\<rparr>)"

definition ht_transitionToApproach :: "world \<Rightarrow> world" where
  "ht_transitionToApproach w =
     (if ht_currentPhase w \<noteq> Hyperspace then w
      else setTimeout HT_arriveAtPlanet phaseTimings_approach
             (updateStatus ''APPROACHING'' (createApproachPlanet
                (w\<lparr>ht_currentPhase := Approach,
                   ht_stars := map (\<lambda>_. False) (ht_stars w)\<rparr>))))"

definition ht_arriveAtPlanet :: "world \<Rightarrow> world" where
  "ht_arriveAtPlanet w =
     (if ht_currentPhase w \<noteq> Approach then w
      else setTimeout HT_showPlanetContent 500
             (updateStatus ''ARRIVED'' (w\<lparr>ht_currentPhase := Arrived\<rparr>)))"

text \<open>
  The \<open>switch\<close> of \<open>getContentForPlanet\<close>: the application getter each known
  identifier is sent to. \<open>switch\<close> compares with \<open>===\<close>, so nothing is inherited here.
\<close>

definition contentSection :: "string \<Rightarrow> cv_section option" where
  "contentSection planetId =
     (if planetId = ''work-planet'' then Some Work
      else if planetId = ''education-planet'' then Some Education
      else if planetId = ''skills-planet'' then Some Skills
      else if planetId = ''projects-planet'' then Some Projects
      else if planetId = ''community-planet'' then Some Community
      else if planetId = ''contact-planet'' then Some Contact
      else if planetId = ''portfolio-nebula'' then Some Portfolio
      else None)"

text \<open>
  \<open>getContentForPlanet\<close>. \<open>travelSystem.app\<close> is the object the constructor of
  TravelSystem has already read the scene from, so the first test never returns.
\<close>

definition getContentForPlanet :: "string \<Rightarrow> world \<Rightarrow> html \<times> world" where
  "getContentForPlanet planetId w =
     (case contentSection planetId of
        Some s \<Rightarrow> (AppContent s, w\<lparr>contentRequests := contentRequests w @ [s]\<rparr>)
      | None \<Rightarrow> (NotAvailable, w))"

definition titleMap :: "(string \<times> string) list" where
  "titleMap =
     [(''work-planet'', ''Work Experience''),
      (''education-planet'', ''Education''),
      (''skills-planet'', ''Technical Skills''),
      (''projects-planet'', ''Accolades & Achievements''),
      (''community-planet'', ''Community Work''),
      (''contact-planet'', ''Contact & Connect''),
      (''portfolio-nebula'', ''Creative Portfolio'')]"

text \<open>
  \<open>titleMap[planetId] || 'Information'\<close>: the fallback is taken when the lookup is
  falsy, that is \<open>undefined\<close> (no own title is the empty string).
\<close>

definition getTitleForPlanet :: "string \<Rightarrow> string js_lookup" where
  "getTitleForPlanet planetId =
     (case js_get titleMap planetId of
        Undefined \<Rightarrow> Own ''Information''
      | Own t \<Rightarrow> if t = [] then Own ''Information'' else Own t
      | Inherited k \<Rightarrow> Inherited k)"

definition updateContentModal :: "string js_lookup \<Rightarrow> html \<Rightarrow> world \<Rightarrow> world" where
  "updateContentModal title content w = w\<lparr>contentTitle := title, contentBody := content\<rparr>"

text \<open>
  \<open>showPlanetContent\<close> has no test of the phase; reading \<open>this.selectedPlanet.id\<close>
  throws when no planet is selected, after the phase and the status were written.
\<close>

definition ht_showPlanetContent :: "world \<Rightarrow> result" where
  "ht_showPlanetContent w =
     (let w1 = updateStatus ''DATA LINK'' (w\<lparr>ht_currentPhase := Content\<rparr>)
      in case ht_selectedPlanet w1 of
           None \<Rightarrow> Inl (TypeError ''Cannot read properties of null (reading id)'', w1)
         | Some p \<Rightarrow>
             (case getContentForPlanet (planet_id p) w1 of
                (content, w2) \<Rightarrow>
                  Inr ((updateContentModal (getTitleForPlanet (planet_id p)) content w2)
                         \<lparr>contentOverlayHidden := False\<rparr>)))"

definition hideTravelEffects :: "world \<Rightarrow> world" where
  "hideTravelEffects w =
     w\<lparr>ht_travelGroupVisible := False,
       ht_stars := map (\<lambda>_. False) (ht_stars w),
       ht_approachPlanet := None\<rparr>"

definition hideTravelInterface :: "world \<Rightarrow> world" where
  "hideTravelInterface w =
     w\<lparr>ht_blackScreenShown := False, ht_cockpitOverlayShown := False,
       bodyCockpitActive := False\<rparr>"

definition restoreOriginalScene :: "world \<Rightarrow> world" where
  "restoreOriginalScene w =
     w\<lparr>scene := setClearColor (st_clearColor (ht_originalSceneState w))
                  (st_clearAlpha (ht_originalSceneState w))
                  ((scene w)\<lparr>st_background := st_background (ht_originalSceneState w),
                            st_fog := st_fog (ht_originalSceneState w)\<rparr>)\<rparr>"

definition restoreObject :: "scene_object \<Rightarrow> scene_object" where
  "restoreObject ob =
     (if obj_wasVisibleBeforeTravel ob
      then ob\<lparr>obj_visible := True, obj_wasVisibleBeforeTravel := False\<rparr>
      else ob)"

definition restoreOrbitalObjects :: "world \<Rightarrow> world" where
  "restoreOrbitalObjects w = w\<lparr>sceneObjects := map restoreObject (sceneObjects w)\<rparr>"

definition executeCompleteCleanup :: "world \<Rightarrow> world" where
  "executeCompleteCleanup w =
     restoreOrbitalObjects (restoreOriginalScene (hideTravelInterface (hideTravelEffects
       (w\<lparr>ht_isActive := False, ht_currentPhase := Idle, ht_selectedPlanet := None\<rparr>))))"

text \<open>
  \<open>fadeTransition(callback)\<close>: the overlay is styling; what remains is the chain of
  three timers (500, 200 and 500 ms), the first of which runs the callback. Its only
  caller passes \<open>executeCompleteCleanup\<close>.
\<close>

definition fadeTransition :: "world \<Rightarrow> world" where
  "fadeTransition w = setTimeout Fade_execute 500 w"

definition ht_returnToOrbit :: "world \<Rightarrow> world" where
  "ht_returnToOrbit w = fadeTransition (w\<lparr>contentOverlayHidden := True\<rparr>)"

definition isHyperspaceActive :: "world \<Rightarrow> bool" where
  "isHyperspaceActive w = ht_isActive w"

definition emergencyStop :: "world \<Rightarrow> world" where
  "emergencyStop w = executeCompleteCleanup w"

definition forceHideHyperspace :: "world \<Rightarrow> world" where
  "forceHideHyperspace w = hideTravelEffects w"

definition showHyperspace :: "world \<Rightarrow> world" where
  "showHyperspace w = startHyperspacePhase w"

definition ht_stop :: "world \<Rightarrow> world" where
  "ht_stop w = (if ht_isActive w then ht_returnToOrbit w else w)"

definition ht_reset :: "world \<Rightarrow> world" where
  "ht_reset w = executeCompleteCleanup w"

definition emergencyCleanup :: "world \<Rightarrow> world" where
  "emergencyCleanup w = emergencyStop w"

subsection \<open>TravelAudio\<close>

definition onAudioEnd :: "world \<Rightarrow> world" where
  "onAudioEnd w = w\<lparr>ta_isPlaying := False, ta_currentAudio := None\<rparr>"

text \<open>
  \<open>stop()\<close> returns at once unless a session is playing and \<open>currentAudio\<close> is set;
  stopping the source or pausing the element is wrapped in \<open>try\<close>.
\<close>

definition ta_stop :: "world \<Rightarrow> world" where
  "ta_stop w =
     (if \<not> ta_isPlaying w \<or> ta_currentAudio w = None then w else onAudioEnd w)"

definition isAudioPlaying :: "world \<Rightarrow> bool" where
  "isAudioPlaying w = ta_isPlaying w"

text \<open>
  \<open>simulateAudioDuration\<close>: \<open>audioData ? audioData.duration : 10000\<close>. An inherited
  member is truthy and has no \<open>duration\<close>; \<open>setTimeout\<close> with an undefined delay
  waits 0 ms. The timer's handle is not kept.
\<close>

definition simulateAudioDuration :: "string \<Rightarrow> world \<Rightarrow> world" where
  "simulateAudioDuration planetId w =
     (let duration = (case js_get (ta_audioFiles w) planetId of
                        Own d \<Rightarrow> ad_duration d
                      | Inherited k \<Rightarrow> 0
                      | Undefined \<Rightarrow> 10000)
      in setTimeout TA_onAudioEnd duration (w\<lparr>ta_isPlaying := True\<rparr>))"

definition playWithWebAudio :: "world \<Rightarrow> world" where
  "playWithWebAudio w = w\<lparr>ta_currentAudio := Some WebAudio\<rparr>"

text \<open>
  \<open>playWithHTML5Audio\<close> up to its return: \<open>audio.play()\<close> has been called and its
  promise is pending. The browser either plays the clip (\<open>audioEnded\<close> below, when
  it ends) or rejects the promise (\<open>html5PlayRejected\<close>).
\<close>

definition playWithHTML5Audio :: "world \<Rightarrow> world" where
  "playWithHTML5Audio w = w\<lparr>ta_currentAudio := Some Html5\<rparr>"

text \<open>
  \<open>playAudio\<close>: whatever is thrown inside \<open>try\<close> (no audio source, or a property
  read on an undefined entry) is caught and answered by \<open>simulateAudioDuration\<close>.
\<close>

definition playAudio :: "string \<Rightarrow> world \<Rightarrow> world" where
  "playAudio planetId w =
     (let w1 = w\<lparr>ta_isPlaying := True\<rparr>
      in case js_get (ta_audioFiles w) planetId of
           Own d \<Rightarrow>
             (if ta_audioContext w \<and> ad_audioBuffer d then playWithWebAudio w1
              else if ad_audioElement d then playWithHTML5Audio w1
              else simulateAudioDuration planetId w1)
         | Inherited k \<Rightarrow> simulateAudioDuration planetId w1
         | Undefined \<Rightarrow> simulateAudioDuration planetId w1)"

text \<open>
  \<open>playVoiceOver\<close>. When the clip has a URL and is not loaded, \<open>preloadAudio\<close> is
  started and its continuation decides. With a Web Audio context the fetch is pending
  (\<open>ta_pendingLoads\<close>) and the continuation runs when the browser settles it
  (\<open>preloadSettled\<close>). Without a context \<open>preloadAudio\<close> only creates the element
  and returns; the continuation is then a job of its own that runs once the caller
  has returned (\<open>preloadSettled\<close> with nothing decoded). In both cases
  \<open>playVoiceOver\<close> itself returns with nothing playing and no timer set.
\<close>

definition playVoiceOver :: "string \<Rightarrow> world \<Rightarrow> world" where
  "playVoiceOver planetId w0 =
     (let w = (if ta_isPlaying w0 then ta_stop w0 else w0)
      in case js_get (ta_audioFiles w) planetId of
           Undefined \<Rightarrow> simulateAudioDuration planetId w
         | Inherited k \<Rightarrow> simulateAudioDuration planetId w
         | Own d \<Rightarrow>
             (if ad_url d = None \<or> ad_url d = Some [] then simulateAudioDuration planetId w
              else if \<not> ad_loaded d then
                w\<lparr>ta_pendingLoads := ta_pendingLoads w @ [planetId]\<rparr>
              else playAudio planetId w))"

text \<open>
  The promise of \<open>preloadAudio\<close> settles and the continuation of \<open>playVoiceOver\<close>
  runs. With a Web Audio context the clip was decoded (its duration in ms), or the
  fetch or the decoding failed, which \<open>preloadAudio\<close> catches; without a context
  nothing is decoded.
\<close>

definition preloadSettled :: "string \<Rightarrow> nat option \<Rightarrow> world \<Rightarrow> world" where
  "preloadSettled planetId outcome w0 =
     (let w = w0\<lparr>ta_pendingLoads := remove1 planetId (ta_pendingLoads w0)\<rparr>;
          decoded = (if ta_audioContext w then outcome else None)
      in case (map_of (ta_audioFiles w) planetId, decoded) of
           (Some d, Some ms) \<Rightarrow>
             playAudio planetId
               (w\<lparr>ta_audioFiles :=
                    AList.update planetId
                      (d\<lparr>ad_audioBuffer := True, ad_duration := ms, ad_loaded := True\<rparr>)
                      (ta_audioFiles w)\<rparr>)
         | (Some d, None) \<Rightarrow>
             (if ad_loaded d then playAudio planetId w else simulateAudioDuration planetId w)
         | (None, _) \<Rightarrow> simulateAudioDuration planetId w)"

text \<open>The handler of a rejected \<open>audio.play()\<close>, and the \<open>ended\<close> event.\<close>

definition html5PlayRejected :: "world \<Rightarrow> world" where
  "html5PlayRejected w = onAudioEnd w"

definition audioEnded :: "world \<Rightarrow> world" where
  "audioEnded w = onAudioEnd w"

subsection \<open>TravelSystem\<close>

definition travelConfig_hyperspace :: nat where "travelConfig_hyperspace = 3000"
definition travelConfig_hyperspaceToApproach :: nat where "travelConfig_hyperspaceToApproach = 200"
definition travelConfig_planetApproach :: nat where "travelConfig_planetApproach = 2000"
definition travelConfig_approachToContent :: nat where "travelConfig_approachToContent = 300"

definition disablePlanetInteractions :: "world \<Rightarrow> world" where
  "disablePlanetInteractions w =
     w\<lparr>canvasPointerEvents := False, planetInfoHidden := True,
       navigationTravelHidden := True\<rparr>"

definition enablePlanetInteractions :: "world \<Rightarrow> world" where
  "enablePlanetInteractions w =
     w\<lparr>canvasPointerEvents := True, planetInfoHidden := True,
       navigationTravelHidden := False\<rparr>"

definition initiatePlanetTravel :: "planet \<Rightarrow> world \<Rightarrow> world" where
  "initiatePlanetTravel p w =
     (if isTravel w then w
      else tc_show p (w\<lparr>selectedPlanet := Some p, currentPhase := Confirmation\<rparr>))"

definition startTravelSequence :: "world \<Rightarrow> world" where
  "startTravelSequence w =
     (case selectedPlanet w of
        None \<Rightarrow> w
      | Some p \<Rightarrow>
          startTravel p (disablePlanetInteractions (tc_hide
            (w\<lparr>isTravel := True, travelStartTime := now w, currentPhase := Traveling\<rparr>))))"

text \<open>
  \<open>clearPhaseTimers\<close>: \<open>if (timer) clearTimeout(timer)\<close> for every value of the table
  (a handle 0 is falsy), then the table is emptied.
\<close>

definition clearPhaseTimers :: "world \<Rightarrow> world" where
  "clearPhaseTimers w =
     (fold (\<lambda>h v. if h \<noteq> 0 then clearTimeout h v else v) (map snd (phaseTimers w)) w)
       \<lparr>phaseTimers := []\<rparr>"


definition resetTravelState :: "world \<Rightarrow> world" where
  "resetTravelState w =
     clearPhaseTimers
       (w\<lparr>isTravel := False, currentPhase := Orbit, selectedPlanet := None,
          travelStartTime := 0\<rparr>)"

definition cancelTravel :: "world \<Rightarrow> world" where
  "cancelTravel w =
     enablePlanetInteractions (resetTravelState (clearPhaseTimers (tc_hide
       (w\<lparr>currentPhase := Orbit, selectedPlanet := None\<rparr>))))"

definition handleCancel :: "world \<Rightarrow> world" where
  "handleCancel w = tc_hide (cancelTravel w)"

definition handleConfirm :: "world \<Rightarrow> world" where
  "handleConfirm w =
     (case tc_selectedPlanet w of
        None \<Rightarrow> w
      | Some p \<Rightarrow> setTimeout ConfirmLaunch 800 (w\<lparr>tc_buttonsDisabled := True\<rparr>))"

definition executeCompleteRestoration :: "world \<Rightarrow> world" where
  "executeCompleteRestoration w =
     enablePlanetInteractions (ht_returnToOrbit
       (w\<lparr>isTravel := False, currentPhase := Orbit, selectedPlanet := None,
          travelStartTime := 0\<rparr>))"

definition returnToOrbit :: "world \<Rightarrow> world" where
  "returnToOrbit w =
     executeCompleteRestoration (clearPhaseTimers (w\<lparr>contentOverlayHidden := True\<rparr>))"

text \<open>
  \<open>forceStopAllTravelComponents\<close>. \<open>planetApproach\<close> and \<open>cockpitView\<close> are
  never assigned, so their branches are not taken.
\<close>

definition forceStopAllTravelComponents :: "world \<Rightarrow> world" where
  "forceStopAllTravelComponents w =
     ta_stop (emergencyCleanup (ht_stop (clearPhaseTimers w)))"

definition emergencyReturnToOrbit :: "world \<Rightarrow> world" where
  "emergencyReturnToOrbit w =
     executeCompleteRestoration (forceStopAllTravelComponents (clearPhaseTimers w))"

subsection \<open>TravelSystem: the phase methods\<close>

text \<open>
  \<open>this.hyperspaceTravel.start()\<close>: the class HyperspaceTravel defines
  \<open>startTravel\<close>, \<open>stop\<close>, \<open>showHyperspace\<close> and others, but no method
  \<open>start\<close>; calling the missing property throws.
\<close>

definition ht_start :: "world \<Rightarrow> result" where
  "ht_start w = Inl (TypeError ''this.hyperspaceTravel.start is not a function'', w)"

text \<open>
  \<open>this.hyperspaceTravel.hyperspaceGroup\<close>: HyperspaceTravel has no such field (its
  group is \<open>travelGroup\<close>), so the read is \<open>undefined\<close> in every state; a defined
  group would be \<open>Some\<close> of its visibility.
\<close>

definition ht_hyperspaceGroup :: "world \<Rightarrow> bool option" where
  "ht_hyperspaceGroup w = None"

definition validateHyperspaceStarted :: "world \<Rightarrow> result" where
  "validateHyperspaceStarted w =
     andThen (if \<not> isHyperspaceActive w then ht_start w else Inr w)
       (\<lambda>w1. case ht_hyperspaceGroup w1 of
                None \<Rightarrow> Inr w1
              | Some visible \<Rightarrow> if \<not> visible then Inr (showHyperspace w1) else Inr w1)"

text \<open>
  \<open>startHyperspaceSequence\<close>. \<open>planetApproach\<close> is never assigned; \<open>hyperspaceTravel\<close>
  and \<open>travelAudio\<close> are set by \<open>init\<close>.
\<close>

definition startHyperspaceSequence :: "world \<Rightarrow> result" where
  "startHyperspaceSequence w =
     (if currentPhase w \<noteq> Cockpit then Inr w
      else
        andThen (ht_start (w\<lparr>currentPhase := Hyperspace\<rparr>))
          (\<lambda>w1.
             andThen
               (let w2 = setPhaseTimer ''hyperspaceValidation'' TS_validateHyperspaceStarted 100 w1
                in case selectedPlanet w2 of
                     None \<Rightarrow> Inl (TypeError ''Cannot read properties of null (reading id)'', w2)
                   | Some p \<Rightarrow> Inr (playVoiceOver (planet_id p) w2))
               (\<lambda>w3. Inr (setPhaseTimer ''approachTransition'' TS_transitionToApproach
                             travelConfig_hyperspace w3))))"

definition ts_transitionToApproach :: "world \<Rightarrow> world" where
  "ts_transitionToApproach w =
     (if currentPhase w \<noteq> Hyperspace then w
      else
        setPhaseTimer ''approachStart'' TS_startPlanetApproachSequence
          (travelConfig_hyperspaceToApproach div 2)
          (setPhaseTimer ''hyperspaceHide'' TS_forceHideHyperspace
             travelConfig_hyperspaceToApproach
             (ht_stop (w\<lparr>currentPhase := Transitioning\<rparr>))))"

definition startPlanetApproachSequence :: "world \<Rightarrow> world" where
  "startPlanetApproachSequence w =
     (case selectedPlanet w of
        None \<Rightarrow> w
      | Some p \<Rightarrow>
          setPhaseTimer ''contentDisplay'' TS_arriveAtPlanet travelConfig_planetApproach
            (forceHideHyperspace (w\<lparr>currentPhase := Approach\<rparr>)))"

definition ts_arriveAtPlanet :: "world \<Rightarrow> world" where
  "ts_arriveAtPlanet w =
     setPhaseTimer ''showContent'' TS_showPlanetContent travelConfig_approachToContent
       (w\<lparr>currentPhase := Arrived\<rparr>)"

text \<open>
  The \<open>switch\<close> of TravelSystem's \<open>showPlanetContent\<close>: the title and the
  application getter of six identifiers. Any other identifier gets the planet's name
  as title and the fallback paragraph.
\<close>

definition ts_contentCase :: "string \<Rightarrow> (string \<times> cv_section) option" where
  "ts_contentCase planetId =
     (if planetId = ''work-planet'' then Some (''Work Experience'', Work)
      else if planetId = ''education-planet'' then Some (''Education'', Education)
      else if planetId = ''skills-planet'' then Some (''Technical Skills'', Skills)
      else if planetId = ''projects-planet'' then Some (''Accolades & Achievements'', Projects)
      else if planetId = ''community-planet'' then Some (''Community Work'', Community)
      else if planetId = ''contact-planet'' then Some (''Contact & Connect'', Contact)
      else None)"

definition ts_showPlanetContent :: "world \<Rightarrow> result" where
  "ts_showPlanetContent w =
     (case selectedPlanet w of
        None \<Rightarrow> Inl (TypeError ''Cannot read properties of null (reading getInfo)'', w)
      | Some p \<Rightarrow>
          (let w1 = w\<lparr>currentPhase := Content\<rparr>
           in case ts_contentCase (planet_id p) of
                Some (title, s) \<Rightarrow>
                  Inr (w1\<lparr>contentRequests := contentRequests w1 @ [s],
                          contentTitle := Own title,
                          contentBody := AppContent s,
                          contentOverlayHidden := False\<rparr>)
              | None \<Rightarrow>
                  Inr (w1\<lparr>contentTitle := Own (planet_name p),
                          contentBody := NotAvailable,
                          contentOverlayHidden := False\<rparr>)))"

subsection \<open>The event loop\<close>

definition run_callback :: "callback \<Rightarrow> world \<Rightarrow> result" where
  "run_callback f w =
     (case f of
        ConfirmationEntrance \<Rightarrow> Inr w
      | ConfirmationHidden \<Rightarrow> Inr (w\<lparr>tc_overlayHidden := True\<rparr>)
      | ConfirmLaunch \<Rightarrow> Inr (startTravelSequence w)
      | HT_transitionToApproach \<Rightarrow> Inr (ht_transitionToApproach w)
      | HT_arriveAtPlanet \<Rightarrow> Inr (ht_arriveAtPlanet w)
      | HT_showPlanetContent \<Rightarrow> ht_showPlanetContent w
      | Fade_execute \<Rightarrow> Inr (setTimeout Fade_back 200 (executeCompleteCleanup w))
      | Fade_back \<Rightarrow> Inr (setTimeout Fade_remove 500 w)
      | Fade_remove \<Rightarrow> Inr w
      | TS_validateHyperspaceStarted \<Rightarrow> validateHyperspaceStarted w
      | TS_transitionToApproach \<Rightarrow> Inr (ts_transitionToApproach w)
      | TS_forceHideHyperspace \<Rightarrow> Inr (forceHideHyperspace w)
      | TS_startPlanetApproachSequence \<Rightarrow> Inr (startPlanetApproachSequence w)
      | TS_arriveAtPlanet \<Rightarrow> Inr (ts_arriveAtPlanet w)
      | TS_showPlanetContent \<Rightarrow> ts_showPlanetContent w
      | TA_onAudioEnd \<Rightarrow> Inr (onAudioEnd w))"

text \<open>
  The pending timer that fires next, among those due by time \<open>t\<close>: the earliest, and
  among equally early ones the first scheduled.
\<close>

fun earliest :: "timer list \<Rightarrow> timer option" where
  "earliest [] = None"
| "earliest (x # xs) =
     (case earliest xs of
        None \<Rightarrow> Some x
      | Some y \<Rightarrow> if fst (snd y) < fst (snd x) then Some y else Some x)"

definition next_due :: "nat \<Rightarrow> timer list \<Rightarrow> timer option" where
  "next_due t ts = earliest (filter (\<lambda>x. fst (snd x) \<le> t) ts)"

text \<open>
  Firing a timer: the clock moves to its due time, the timer leaves the pending list,
  its callback runs. An exception thrown by the callback is reported by the page
  (\<open>uncaught\<close>) and the state stays as the callback left it.
\<close>

definition fire :: "timer \<Rightarrow> world \<Rightarrow> world" where
  "fire x w =
     (case run_callback (snd (snd x))
             (w\<lparr>now := max (now w) (fst (snd x)), timers := remove1 x (timers w)\<rparr>) of
        Inr w' \<Rightarrow> w'
      | Inl (e, w') \<Rightarrow> w'\<lparr>uncaught := uncaught w' @ [e]\<rparr>)"

text \<open>
  \<open>advance n t w\<close>: let time pass until \<open>t\<close> with no input, firing at most \<open>n\<close>
  timers; \<open>None\<close> when more than \<open>n\<close> timers would have to fire.
\<close>

fun advance :: "nat \<Rightarrow> nat \<Rightarrow> world \<Rightarrow> world option" where
  "advance n t w =
     (case next_due t (timers w) of
        None \<Rightarrow> Some (w\<lparr>now := max (now w) t\<rparr>)
      | Some x \<Rightarrow> (case n of 0 \<Rightarrow> None | Suc m \<Rightarrow> advance m t (fire x w)))"

subsection \<open>The state after construction\<close>

text \<open>
  The fields as the four constructors leave them. The scene, its objects and the
  camera are the application's and are parameters; the page starts with the content
  overlay hidden and the canvas receiving input.
\<close>

definition initialAudioFiles :: "(string \<times> audio_data) list" where
  "initialAudioFiles =
     map (\<lambda>k. (k, \<lparr>ad_url = None, ad_duration = 10000, ad_loaded = False,
                    ad_audioBuffer = False, ad_audioElement = False\<rparr>))
       [''work-planet'', ''education-planet'', ''skills-planet'', ''projects-planet'',
        ''community-planet'', ''contact-planet'']"

definition starCount :: nat where "starCount = 150"

definition initial_world :: "scene_state \<Rightarrow> scene_object list \<Rightarrow> world" where
  "initial_world sc objs =
     \<lparr>now = 0, timers = [], nextHandle = 1, uncaught = [],
      isTravel = False, currentPhase = Orbit, selectedPlanet = None,
      travelStartTime = 0, phaseTimers = [],
      tc_isVisible = False, tc_selectedPlanet = None, tc_overlayHidden = True,
      tc_buttonsDisabled = False,
      ht_isActive = False, ht_currentPhase = Idle, ht_selectedPlanet = None,
      ht_startTime = 0, ht_travelGroupVisible = False,
      ht_stars = replicate starCount False, ht_approachPlanet = None,
      ht_originalSceneState =
        \<lparr>st_background = Null, st_fog = Null, st_clearColor = Null, st_clearAlpha = Null\<rparr>,
      ht_blackScreenShown = False, ht_cockpitOverlayShown = False,
      ht_status = ''STANDBY'',
      scene = sc, sceneObjects = objs,
      cameraPosition = App 0, cameraQuaternion = App 0,
      bodyCockpitActive = False, contentOverlayHidden = True,
      contentTitle = Own [], contentBody = EmptyBody,
      canvasPointerEvents = True, planetInfoHidden = True,
      navigationTravelHidden = False,
      contentRequests = [],
      ta_isPlaying = False, ta_currentAudio = None, ta_audioContext = True,
      ta_audioFiles = initialAudioFiles, ta_pendingLoads = []\<rparr>"

definition orbit_scene :: scene_state where
  "orbit_scene =
     \<lparr>st_background = App 1, st_fog = App 2, st_clearColor = App 3, st_clearAlpha = App 4\<rparr>"

definition orbit_objects :: "scene_object list" where
  "orbit_objects =
     [\<lparr>obj_visible = True, obj_hideable = True, obj_wasVisibleBeforeTravel = False\<rparr>,
      \<lparr>obj_visible = False, obj_hideable = True, obj_wasVisibleBeforeTravel = False\<rparr>,
      \<lparr>obj_visible = True, obj_hideable = False, obj_wasVisibleBeforeTravel = False\<rparr>]"

definition orbit_world :: world where
  "orbit_world = initial_world orbit_scene orbit_objects"

definition work_planet :: planet where
  "work_planet = \<lparr>planet_id = ''work-planet'', planet_name = ''Career Planet''\<rparr>"

definition education_planet :: planet where
  "education_planet = \<lparr>planet_id = ''education-planet'', planet_name = ''Knowledge World''\<rparr>"

subsection \<open>Reachable states\<close>

text \<open>
  The states the page can be in: the state after construction, followed by any of the
  inputs the page wires to the travel system (a planet is clicked, the dialog's
  buttons, the return button, an emergency return), by time passing, and by any
  pending timer firing.
\<close>

inductive reachable :: "world \<Rightarrow> bool" where
  start: "reachable (initial_world sc objs)"
| select: "reachable w \<Longrightarrow> reachable (initiatePlanetTravel p w)"
| confirm_click: "reachable w \<Longrightarrow> reachable (handleConfirm w)"
| cancel_click: "reachable w \<Longrightarrow> reachable (handleCancel w)"
| confirm: "reachable w \<Longrightarrow> reachable (startTravelSequence w)"
| cancel: "reachable w \<Longrightarrow> reachable (cancelTravel w)"
| return: "reachable w \<Longrightarrow> reachable (returnToOrbit w)"
| emergency: "reachable w \<Longrightarrow> reachable (emergencyReturnToOrbit w)"
| wait: "reachable w \<Longrightarrow> now w \<le> t \<Longrightarrow> reachable (w\<lparr>now := t\<rparr>)"
| timer: "reachable w \<Longrightarrow> x \<in> set (timers w) \<Longrightarrow> reachable (fire x w)"

text \<open>The callbacks that only TravelSystem's phase methods schedule.\<close>

fun ts_callback :: "callback \<Rightarrow> bool" where
  "ts_callback TS_validateHyperspaceStarted = True"
| "ts_callback TS_transitionToApproach = True"
| "ts_callback TS_forceHideHyperspace = True"
| "ts_callback TS_startPlanetApproachSequence = True"
| "ts_callback TS_arriveAtPlanet = True"
| "ts_callback TS_showPlanetContent = True"
| "ts_callback _ = False"

text \<open>
  What holds of the coordinator in every reachable state: its phase is orbit,
  confirmation or traveling, with the flags that go with it; none of the phase
  methods' timers is pending and the table of phase timers is empty.
\<close>

definition coordinator_inv :: "world \<Rightarrow> bool" where
  "coordinator_inv w =
     (((currentPhase w = Orbit \<and> selectedPlanet w = None \<and> isTravel w = False)
       \<or> (currentPhase w = Confirmation \<and> isTravel w = False)
       \<or> (currentPhase w = Traveling \<and> isTravel w))
      \<and> list_all (\<lambda>x. ts_callback (snd (snd x)) = False) (timers w)
      \<and> phaseTimers w = [])"

subsection \<open>States used as examples\<close>

text \<open>The work planet was selected and the launch confirmed, at time 0.\<close>

definition confirmed_world :: world where
  "confirmed_world = startTravelSequence (initiatePlanetTravel work_planet orbit_world)"

text \<open>
  A coordinator in phase hyperspace whose narration of the work planet is running as
  a simulated duration, and one whose narration is a real Web Audio playback.
\<close>

definition hyperspace_world :: world where
  "hyperspace_world =
     orbit_world\<lparr>isTravel := True, currentPhase := Hyperspace,
                 selectedPlanet := Some work_planet\<rparr>"

definition simulated_audio_world :: world where
  "simulated_audio_world = playVoiceOver ''work-planet'' hyperspace_world"

definition real_audio_world :: world where
  "real_audio_world = hyperspace_world\<lparr>ta_isPlaying := True, ta_currentAudio := Some WebAudio\<rparr>"

text \<open>
  The confirmed travel, whose effect is in its hyperspace phase, with the narration
  of the work planet started.
\<close>

definition narrated_travel_world :: world where
  "narrated_travel_world = playVoiceOver ''work-planet'' confirmed_world"

text \<open>A coordinator in phase cockpit, the work planet selected.\<close>

definition cockpit_world :: world where
  "cockpit_world =
     orbit_world\<lparr>isTravel := True, currentPhase := Cockpit,
                 selectedPlanet := Some work_planet\<rparr>"

text \<open>
  A browser without Web Audio in which the clip of the work planet was added and its
  audio element has loaded.
\<close>

definition html5_world :: world where
  "html5_world =
     orbit_world\<lparr>ta_audioContext := False,
                 ta_audioFiles :=
                   AList.update ''work-planet''
                     \<lparr>ad_url = Some ''work-experience-vo.mp3'', ad_duration = 8000,
                      ad_loaded = True, ad_audioBuffer = False, ad_audioElement = True\<rparr>
                     initialAudioFiles\<rparr>"


text \<open>The dialog is open for the work planet; nothing was confirmed yet.\<close>

definition confirming_world :: world where
  "confirming_world = initiatePlanetTravel work_planet orbit_world"

text \<open>The scene as \<open>setupTravelScene\<close> leaves it.\<close>

definition travel_scene :: scene_state where
  "travel_scene =
     \<lparr>st_background = Hex 0, st_fog = Null, st_clearColor = Hex 0, st_clearAlpha = One\<rparr>"

text \<open>
  Runs of the confirmed travel with one further input: \<open>cancelTravel\<close> after 1000 ms,
  \<open>returnToOrbit\<close> after 8000 ms (the content is shown since 7500 ms),
  \<open>emergencyReturnToOrbit\<close> after 7200 ms and after 1000 ms; and, after the last
  one, a second travel, to the education planet, launched at 2000 ms.
\<close>

definition cancelled_mid_travel :: "world option" where
  "cancelled_mid_travel = map_option cancelTravel (advance 10 1000 confirmed_world)"

definition returned_from_content :: "world option" where
  "returned_from_content = map_option returnToOrbit (advance 10 8000 confirmed_world)"

definition reset_after_arrival :: "world option" where
  "reset_after_arrival = map_option emergencyReturnToOrbit (advance 10 7200 confirmed_world)"

definition reset_in_hyperspace :: "world option" where
  "reset_in_hyperspace = map_option emergencyReturnToOrbit (advance 10 1000 confirmed_world)"

definition second_attempt :: "world option" where
  "second_attempt =
     map_option startTravelSequence
       (map_option (initiatePlanetTravel education_planet)
          (Option.bind reset_in_hyperspace (advance 10 2000)))"

section \<open>Properties\<close>

lemmas tc_defs = tc_show_def tc_hide_def resetButtonStates_def setTimeout_def

lemmas ht_defs = startTravel_def storeOriginalSceneState_def setupTravelScene_def
  setClearColor_def
  showTravelInterface_def updateStatus_def hideOrbitalObjects_def startHyperspacePhase_def
  ht_transitionToApproach_def createApproachPlanet_def ht_arriveAtPlanet_def
  ht_showPlanetContent_def getContentForPlanet_def updateContentModal_def
  hideTravelEffects_def hideTravelInterface_def restoreOriginalScene_def
  restoreOrbitalObjects_def executeCompleteCleanup_def fadeTransition_def
  ht_returnToOrbit_def emergencyStop_def emergencyCleanup_def ht_stop_def ht_reset_def
  forceHideHyperspace_def showHyperspace_def isHyperspaceActive_def
  phaseTimings_hyperspace_def phaseTimings_approach_def

lemmas ts_defs = initiatePlanetTravel_def startTravelSequence_def
  disablePlanetInteractions_def enablePlanetInteractions_def clearPhaseTimers_def
  resetTravelState_def cancelTravel_def executeCompleteRestoration_def returnToOrbit_def
  forceStopAllTravelComponents_def emergencyReturnToOrbit_def clearTimeout_def

lemmas ta_defs = onAudioEnd_def ta_stop_def isAudioPlaying_def simulateAudioDuration_def
  playWithWebAudio_def playWithHTML5Audio_def playAudio_def playVoiceOver_def
  html5PlayRejected_def initialAudioFiles_def

lemmas loop_defs = run_callback_def next_due_def fire_def Let_def contentSection_def
  getTitleForPlanet_def js_get_def titleMap_def objectPrototypeKeys_def hideObject_def
  restoreObject_def

lemmas ex_defs = orbit_world_def initial_world_def work_planet_def education_planet_def
  orbit_scene_def orbit_objects_def starCount_def

lemmas run_defs = confirmed_world_def confirming_world_def travel_scene_def
  cancelled_mid_travel_def returned_from_content_def reset_after_arrival_def
  reset_in_hyperspace_def second_attempt_def

subsection \<open>The invariant of the coordinator\<close>

lemma inv_initial: "coordinator_inv (initial_world sc objs)"
  by (simp add: coordinator_inv_def initial_world_def)

lemma inv_tc_hide: "coordinator_inv w \<Longrightarrow> coordinator_inv (tc_hide w)"
  by (simp add: coordinator_inv_def tc_defs)

lemma inv_initiate: "coordinator_inv w \<Longrightarrow> coordinator_inv (initiatePlanetTravel p w)"
  by (auto simp add: coordinator_inv_def initiatePlanetTravel_def tc_defs)

lemma inv_startTravel: "coordinator_inv w \<Longrightarrow> coordinator_inv (startTravel p w)"
  by (simp add: coordinator_inv_def ht_defs setTimeout_def)

lemma inv_confirm: "coordinator_inv w \<Longrightarrow> coordinator_inv (startTravelSequence w)"
  by (auto simp add: coordinator_inv_def startTravelSequence_def tc_defs ht_defs disablePlanetInteractions_def split: option.splits)

lemma inv_cancel: "coordinator_inv w \<Longrightarrow> coordinator_inv (cancelTravel w)"
  by (auto simp add: coordinator_inv_def cancelTravel_def resetTravelState_def clearPhaseTimers_def enablePlanetInteractions_def tc_defs)

lemma inv_handleCancel: "coordinator_inv w \<Longrightarrow> coordinator_inv (handleCancel w)"
  by (simp add: handleCancel_def inv_cancel inv_tc_hide)

lemma inv_handleConfirm: "coordinator_inv w \<Longrightarrow> coordinator_inv (handleConfirm w)"
  by (auto simp add: coordinator_inv_def handleConfirm_def setTimeout_def split: option.splits)

lemma inv_cleanup: "coordinator_inv w \<Longrightarrow> coordinator_inv (executeCompleteCleanup w)"
  by (simp add: coordinator_inv_def ht_defs)

lemma inv_restoration: "coordinator_inv w \<Longrightarrow> coordinator_inv (executeCompleteRestoration w)"
  by (simp add: coordinator_inv_def executeCompleteRestoration_def enablePlanetInteractions_def ht_defs setTimeout_def)

lemma inv_return: "coordinator_inv w \<Longrightarrow> coordinator_inv (returnToOrbit w)"
  by (simp add: coordinator_inv_def returnToOrbit_def clearPhaseTimers_def executeCompleteRestoration_def enablePlanetInteractions_def ht_defs setTimeout_def)

lemma inv_emergency: "coordinator_inv w \<Longrightarrow> coordinator_inv (emergencyReturnToOrbit w)"
  by (simp add: coordinator_inv_def emergencyReturnToOrbit_def forceStopAllTravelComponents_def clearPhaseTimers_def executeCompleteRestoration_def enablePlanetInteractions_def ht_defs setTimeout_def ta_stop_def onAudioEnd_def)

lemma list_all_remove1: "list_all P xs \<Longrightarrow> list_all P (remove1 x xs)"
  by (induction xs) auto

lemma inv_uncaught: "coordinator_inv w \<Longrightarrow> coordinator_inv (w\<lparr>uncaught := es\<rparr>)"
  by (simp add: coordinator_inv_def)

lemma inv_setTimeout:
  "coordinator_inv w \<Longrightarrow> ts_callback f = False \<Longrightarrow> coordinator_inv (setTimeout f d w)"
  by (simp add: coordinator_inv_def setTimeout_def)

lemma inv_ht_transitionToApproach:
  "coordinator_inv w \<Longrightarrow> coordinator_inv (ht_transitionToApproach w)"
  by (simp add: coordinator_inv_def ht_transitionToApproach_def setTimeout_def updateStatus_def
      createApproachPlanet_def split: option.splits)

lemma inv_ht_arriveAtPlanet:
  "coordinator_inv w \<Longrightarrow> coordinator_inv (ht_arriveAtPlanet w)"
  by (simp add: coordinator_inv_def ht_arriveAtPlanet_def setTimeout_def updateStatus_def)

lemma inv_ht_showPlanetContent:
  "coordinator_inv w \<Longrightarrow>
   (case ht_showPlanetContent w of
      Inr w' \<Rightarrow> coordinator_inv w'
    | Inl (e, w') \<Rightarrow> coordinator_inv w')"
  by (simp add: coordinator_inv_def ht_showPlanetContent_def updateStatus_def
      getContentForPlanet_def updateContentModal_def Let_def split: option.splits)

lemma inv_run_callback:
  assumes "coordinator_inv w" and "ts_callback f = False"
  shows "case run_callback f w of
           Inr w' \<Rightarrow> coordinator_inv w'
         | Inl (e, w') \<Rightarrow> coordinator_inv w'"
proof (cases f)
  case HT_showPlanetContent
  then show ?thesis
    using inv_ht_showPlanetContent [OF assms(1)] by (simp add: run_callback_def)
next
  case Fade_execute
  then show ?thesis
    using assms(1) by (simp add: run_callback_def inv_setTimeout inv_cleanup)
next
  case Fade_back
  then show ?thesis
    using assms(1) by (simp add: run_callback_def inv_setTimeout)
next
  case ConfirmationHidden
  then show ?thesis
    using assms(1) by (simp add: run_callback_def coordinator_inv_def)
next
  case TA_onAudioEnd
  then show ?thesis
    using assms(1) by (simp add: run_callback_def coordinator_inv_def onAudioEnd_def)
qed (use assms in \<open>simp_all add: run_callback_def inv_confirm inv_ht_transitionToApproach
       inv_ht_arriveAtPlanet\<close>)

lemma inv_fire:
  assumes "coordinator_inv w" and "x \<in> set (timers w)"
  shows "coordinator_inv (fire x w)"
proof -
  from assms have nf: "ts_callback (snd (snd x)) = False"
    by (auto simp add: coordinator_inv_def list_all_iff)
  from assms(1)
  have v: "coordinator_inv (w\<lparr>now := max (now w) (fst (snd x)), timers := remove1 x (timers w)\<rparr>)"
    by (simp add: coordinator_inv_def list_all_remove1)
  from inv_run_callback [OF v nf] show ?thesis
    by (auto simp add: fire_def inv_uncaught split: sum.splits)
qed

lemma reachable_inv: "reachable w \<Longrightarrow> coordinator_inv w"
proof (induction rule: reachable.induct)
  case (wait w t)
  then show ?case by (simp add: coordinator_inv_def)
qed (simp_all add: inv_initial inv_initiate inv_handleConfirm inv_handleCancel inv_confirm
       inv_cancel inv_return inv_emergency inv_fire)

lemma earliest_mem: "earliest xs = Some x \<Longrightarrow> x \<in> set xs"
  by (induction xs arbitrary: x) (auto split: option.splits if_splits)

lemma reachable_advance: "reachable w \<Longrightarrow> advance n t w = Some w' \<Longrightarrow> reachable w'"
proof (induction n arbitrary: w)
  case 0
  then show ?case
    by (auto simp add: next_due_def split: option.splits intro: reachable.wait)
next
  case (Suc n)
  show ?case
  proof (cases "next_due t (timers w)")
    case None
    with Suc.prems show ?thesis
      by (auto intro: reachable.wait)
  next
    case (Some x)
    then have "x \<in> set (timers w)"
      using earliest_mem [of "filter (\<lambda>x. fst (snd x) \<le> t) (timers w)" x]
      by (simp add: next_due_def)
    with Suc.prems(1) have "reachable (fire x w)"
      by (rule reachable.timer)
    moreover from Suc.prems(2) Some have "advance n t (fire x w) = Some w'"
      by simp
    ultimately show ?thesis
      by (rule Suc.IH)
  qed
qed

subsection \<open>Guards of the coordinator\<close>

text \<open>
  C1, as amended. \<open>startTravelSequence\<close> (the confirm operation) is guarded by the
  stored target, not by the phase: when no planet is selected it is a no-op, no field
  of the coordinator or of any other component changes and no timer is scheduled. In
  every reachable state this covers the phase orbit.
\<close>

theorem startTravelSequence_without_planet:
  "(selectedPlanet w = None \<longrightarrow> startTravelSequence w = w)
   \<and> (reachable w \<longrightarrow> currentPhase w = Orbit \<longrightarrow> startTravelSequence w = w)"
proof -
  have "startTravelSequence w = w" if "selectedPlanet w = None"
    using that by (simp add: startTravelSequence_def)
  moreover have "selectedPlanet w = None" if "reachable w" and "currentPhase w = Orbit"
    using reachable_inv [OF that(1)] that(2) by (auto simp add: coordinator_inv_def)
  ultimately show ?thesis by auto
qed

theorem startTravelSequence_without_planet_witness:
  "selectedPlanet orbit_world = None \<and> reachable orbit_world
   \<and> currentPhase orbit_world = Orbit \<and> startTravelSequence orbit_world = orbit_world"
proof -
  have h1: "reachable orbit_world"
    unfolding orbit_world_def by (rule reachable.start)
  have h2: "currentPhase orbit_world = Orbit" "selectedPlanet orbit_world = None"
    by (simp_all add: ex_defs)
  from startTravelSequence_without_planet [of orbit_world] h1 h2 show ?thesis
    by simp
qed

text \<open>
  C1 as stated fails: 5 ms after the launch was confirmed no timer has fired, the
  phase is traveling (not confirmation), and a second \<open>startTravelSequence\<close> moves
  \<open>travelStartTime\<close> from 0 to 5.
\<close>

theorem startTravelSequence_while_traveling:
  "advance 10 5 confirmed_world = Some (confirmed_world\<lparr>now := 5\<rparr>)
   \<and> currentPhase (confirmed_world\<lparr>now := 5\<rparr>) = Traveling
   \<and> travelStartTime (confirmed_world\<lparr>now := 5\<rparr>) = 0
   \<and> travelStartTime (startTravelSequence (confirmed_world\<lparr>now := 5\<rparr>)) = 5"
  by (simp add: confirmed_world_def ex_defs tc_defs ht_defs ts_defs loop_defs)

text \<open>
  C2, as amended. \<open>initiatePlanetTravel\<close> is guarded by \<open>isTravel\<close>, which is set
  by the confirmed launch: while it is set, the call is a no-op and the stored planet
  is kept. In every reachable state this covers every phase other than orbit and
  confirmation.
\<close>

theorem initiatePlanetTravel_during_travel:
  "(isTravel w \<longrightarrow> initiatePlanetTravel p w = w)
   \<and> (reachable w \<longrightarrow> currentPhase w \<noteq> Orbit \<longrightarrow> currentPhase w \<noteq> Confirmation \<longrightarrow>
        initiatePlanetTravel p w = w)"
proof -
  have "initiatePlanetTravel p w = w" if "isTravel w"
    using that by (simp add: initiatePlanetTravel_def)
  moreover have "isTravel w"
    if "reachable w" and "currentPhase w \<noteq> Orbit" and "currentPhase w \<noteq> Confirmation"
    using reachable_inv [OF that(1)] that(2,3) by (auto simp add: coordinator_inv_def)
  ultimately show ?thesis by auto
qed

theorem initiatePlanetTravel_during_travel_witness:
  "reachable confirmed_world \<and> currentPhase confirmed_world = Traveling
   \<and> isTravel confirmed_world
   \<and> initiatePlanetTravel education_planet confirmed_world = confirmed_world"
proof -
  have h1: "reachable confirmed_world"
    unfolding confirmed_world_def orbit_world_def
    by (intro reachable.confirm reachable.select reachable.start)
  have h2: "currentPhase confirmed_world = Traveling" "isTravel confirmed_world"
    by (simp_all add: confirmed_world_def ex_defs tc_defs ht_defs ts_defs)
  from initiatePlanetTravel_during_travel [of confirmed_world education_planet] h1 h2
  show ?thesis by simp
qed

text \<open>
  C2 as stated fails: while the dialog is open the phase is confirmation (not orbit)
  and \<open>isTravel\<close> is still false, so a second \<open>initiatePlanetTravel\<close> replaces the
  stored planet.
\<close>

theorem initiatePlanetTravel_while_confirming:
  "currentPhase (initiatePlanetTravel work_planet orbit_world) = Confirmation
   \<and> selectedPlanet (initiatePlanetTravel work_planet orbit_world) = Some work_planet
   \<and> selectedPlanet (initiatePlanetTravel education_planet
         (initiatePlanetTravel work_planet orbit_world)) = Some education_planet
   \<and> work_planet \<noteq> education_planet"
  by (simp add: ex_defs tc_defs ts_defs)

subsection \<open>The cleanup of the effect\<close>

lemma restoreObject_idem: "restoreObject (restoreObject ob) = restoreObject ob"
  by (simp add: restoreObject_def)

text \<open>
  What \<open>executeCompleteCleanup\<close> does from any state: a second call changes
  nothing; the effect is inactive and idle, no planet is selected, the travel group,
  the stars, the approach planet, the black screen and the cockpit overlay are hidden
  or removed; every object hidden for the travel is visible again and unmarked;
  background, fog and clear alpha are the saved ones, and the clear colour is the
  saved one unless that is \<open>null\<close>. \<open>reset\<close>, \<open>emergencyStop\<close> and
  \<open>emergencyCleanup\<close> are the same function.
\<close>

lemma executeCompleteCleanup_idem:
  "executeCompleteCleanup (executeCompleteCleanup w) = executeCompleteCleanup w
   \<and> ht_isActive (executeCompleteCleanup w) = False
   \<and> ht_currentPhase (executeCompleteCleanup w) = Idle
   \<and> ht_selectedPlanet (executeCompleteCleanup w) = None
   \<and> ht_travelGroupVisible (executeCompleteCleanup w) = False
   \<and> ht_stars (executeCompleteCleanup w) = replicate (length (ht_stars w)) False
   \<and> ht_approachPlanet (executeCompleteCleanup w) = None
   \<and> ht_blackScreenShown (executeCompleteCleanup w) = False
   \<and> ht_cockpitOverlayShown (executeCompleteCleanup w) = False
   \<and> bodyCockpitActive (executeCompleteCleanup w) = False
   \<and> sceneObjects (executeCompleteCleanup w) = map restoreObject (sceneObjects w)
   \<and> st_background (scene (executeCompleteCleanup w)) = st_background (ht_originalSceneState w)
   \<and> st_fog (scene (executeCompleteCleanup w)) = st_fog (ht_originalSceneState w)
   \<and> st_clearAlpha (scene (executeCompleteCleanup w)) = st_clearAlpha (ht_originalSceneState w)
   \<and> st_clearColor (scene (executeCompleteCleanup w)) =
       (if st_clearColor (ht_originalSceneState w) = Null then st_clearColor (scene w)
        else st_clearColor (ht_originalSceneState w))
   \<and> ht_originalSceneState (executeCompleteCleanup w) = ht_originalSceneState w
   \<and> ht_reset w = executeCompleteCleanup w
   \<and> emergencyStop w = executeCompleteCleanup w
   \<and> emergencyCleanup w = executeCompleteCleanup w"
  by (simp add: ht_defs restoreObject_idem comp_def map_replicate_const)

lemma executeCompleteCleanup_scene:
  "st_clearColor (ht_originalSceneState w) \<noteq> Null \<Longrightarrow>
   scene (executeCompleteCleanup w) = ht_originalSceneState w"
  by (simp add: ht_defs)

text \<open>
  C10 at the state after construction, where the effect is idle and no launch has
  saved a scene state. \<open>executeCompleteCleanup\<close> (and so \<open>emergencyStop\<close> and
  \<open>reset\<close>) writes the constructor's placeholder into the scene: background and fog
  become \<open>null\<close>, while the clear colour, for which \<open>null\<close> is ignored, stays. The
  scene is then neither the saved scene state nor the scene the idle application had.
\<close>

theorem executeCompleteCleanup_before_launch:
  "ht_isActive orbit_world = False
   \<and> ht_currentPhase orbit_world = Idle
   \<and> scene orbit_world = orbit_scene
   \<and> st_background orbit_scene = App 1
   \<and> st_fog orbit_scene = App 2
   \<and> st_background (scene (executeCompleteCleanup orbit_world)) = Null
   \<and> st_fog (scene (executeCompleteCleanup orbit_world)) = Null
   \<and> st_clearColor (scene (executeCompleteCleanup orbit_world)) = App 3
   \<and> st_clearColor (ht_originalSceneState orbit_world) = Null
   \<and> scene (executeCompleteCleanup orbit_world) \<noteq> ht_originalSceneState orbit_world
   \<and> scene (executeCompleteCleanup orbit_world) \<noteq> scene orbit_world
   \<and> scene (emergencyStop orbit_world) \<noteq> scene orbit_world
   \<and> scene (ht_reset orbit_world) \<noteq> scene orbit_world"
proof -
  have "st_background (scene (executeCompleteCleanup orbit_world)) \<noteq> st_background (scene orbit_world)"
    by (simp add: ex_defs ht_defs)
  then have "scene (executeCompleteCleanup orbit_world) \<noteq> scene orbit_world"
    by auto
  moreover have "st_clearColor (scene (executeCompleteCleanup orbit_world)) \<noteq>
                 st_clearColor (ht_originalSceneState orbit_world)"
    by (simp add: ex_defs ht_defs)
  then have "scene (executeCompleteCleanup orbit_world) \<noteq> ht_originalSceneState orbit_world"
    by auto
  ultimately show ?thesis
    by (simp add: emergencyStop_def ht_reset_def) (simp add: ex_defs ht_defs)
qed

subsection \<open>Content lookup\<close>

lemma getContentForPlanet_unknown:
  "contentSection planetId = None \<Longrightarrow> getContentForPlanet planetId w = (NotAvailable, w)"
  by (simp add: getContentForPlanet_def)

lemma getTitleForPlanet_unknown:
  "map_of titleMap planetId = None \<Longrightarrow> planetId \<notin> set objectPrototypeKeys \<Longrightarrow>
   getTitleForPlanet planetId = Own ''Information''"
  by (simp add: getTitleForPlanet_def js_get_def)

text \<open>
  C8 at the identifier \<open>constructor\<close>, which is not a planet identifier: the body is
  the fallback paragraph, but the title is not the fallback title.
  \<open>titleMap[planetId]\<close> finds the member every object literal inherits, which is
  truthy, so \<open>|| 'Information'\<close> is not reached.
\<close>

theorem getTitleForPlanet_constructor:
  "contentSection ''constructor'' = None
   \<and> map_of titleMap ''constructor'' = None
   \<and> getContentForPlanet ''constructor'' orbit_world = (NotAvailable, orbit_world)
   \<and> getTitleForPlanet ''constructor'' = Inherited ''constructor''
   \<and> getTitleForPlanet ''constructor'' \<noteq> Own ''Information''"
  by (simp add: loop_defs getContentForPlanet_def)

subsection \<open>Audio\<close>

text \<open>
  C5 at three states. Two have the coordinator in phase hyperspace, one with a
  simulated and one with a real narration playing; the third is the confirmed travel
  with the effect in its hyperspace phase and the narration started. After
  \<open>cancelTravel\<close> (and after the dialog's \<open>handleCancel\<close>) \<open>isAudioPlaying\<close> is
  still true, and the timer of the simulated narration is still pending.
  \<open>cancelTravel\<close> never calls \<open>TravelAudio.stop\<close>.
\<close>

theorem cancelTravel_keeps_audio:
  "currentPhase simulated_audio_world = Hyperspace
   \<and> isAudioPlaying simulated_audio_world
   \<and> isAudioPlaying (cancelTravel simulated_audio_world)
   \<and> timers (cancelTravel simulated_audio_world) = [(1, 10000, TA_onAudioEnd)]
   \<and> currentPhase real_audio_world = Hyperspace
   \<and> isAudioPlaying real_audio_world
   \<and> isAudioPlaying (cancelTravel real_audio_world)
   \<and> isAudioPlaying (handleCancel real_audio_world)
   \<and> ht_currentPhase narrated_travel_world = Hyperspace
   \<and> isAudioPlaying narrated_travel_world
   \<and> isAudioPlaying (cancelTravel narrated_travel_world)"
  by (simp add: simulated_audio_world_def real_audio_world_def hyperspace_world_def
      narrated_travel_world_def confirmed_world_def handleCancel_def
      ex_defs tc_defs ht_defs ts_defs ta_defs loop_defs)

text \<open>
  The fallback of C9 where it holds: a clip without URL, no narration playing. The
  session is marked playing and one timer ending it is set, due after the clip's
  configured duration.
\<close>

lemma playVoiceOver_without_url:
  "\<not> ta_isPlaying w \<Longrightarrow> map_of (ta_audioFiles w) planetId = Some d \<Longrightarrow> ad_url d = None \<Longrightarrow>
   playVoiceOver planetId w =
     w\<lparr>ta_isPlaying := True,
       timers := timers w @ [(nextHandle w, now w + ad_duration d, TA_onAudioEnd)],
       nextHandle := Suc (nextHandle w)\<rparr>"
  by (simp add: playVoiceOver_def simulateAudioDuration_def js_get_def setTimeout_def)

text \<open>
  C9 at a clip that is loaded as an audio element and whose \<open>play()\<close> the browser
  rejects: \<open>playVoiceOver\<close> starts the HTML5 playback and sets no timer; the
  rejection handler ends the session at once. The state is again the one before the
  call: nothing is playing and no simulated duration is pending.
\<close>

theorem playVoiceOver_html5_rejected:
  "playVoiceOver ''work-planet'' html5_world =
     html5_world\<lparr>ta_isPlaying := True, ta_currentAudio := Some Html5\<rparr>
   \<and> html5PlayRejected (playVoiceOver ''work-planet'' html5_world) = html5_world
   \<and> isAudioPlaying html5_world = False
   \<and> timers html5_world = []"
  by (simp add: html5_world_def ex_defs ta_defs loop_defs)

subsection \<open>The validation of the hyperspace phase\<close>

text \<open>
  C7 at three states. In phase cockpit \<open>startHyperspaceSequence\<close> writes the phase
  and throws at \<open>hyperspaceTravel.start()\<close>: no validation timer and no
  approach timer is pending or registered. \<open>validateHyperspaceStarted\<close> on an active
  effect whose group is invisible returns the state unchanged, without a corrective
  call; on an inactive effect its restart throws and the effect stays inactive.
\<close>

theorem startHyperspaceSequence_throws:
  "startHyperspaceSequence cockpit_world =
     Inl (TypeError ''this.hyperspaceTravel.start is not a function'',
          cockpit_world\<lparr>currentPhase := Hyperspace\<rparr>)
   \<and> timers (cockpit_world\<lparr>currentPhase := Hyperspace\<rparr>) = []
   \<and> phaseTimers (cockpit_world\<lparr>currentPhase := Hyperspace\<rparr>) = []
   \<and> ht_isActive confirmed_world
   \<and> validateHyperspaceStarted (confirmed_world\<lparr>ht_travelGroupVisible := False\<rparr>) =
       Inr (confirmed_world\<lparr>ht_travelGroupVisible := False\<rparr>)
   \<and> ht_isActive hyperspace_world = False
   \<and> validateHyperspaceStarted hyperspace_world =
       Inl (TypeError ''this.hyperspaceTravel.start is not a function'', hyperspace_world)"
  by (simp add: startHyperspaceSequence_def validateHyperspaceStarted_def ht_start_def
      ht_hyperspaceGroup_def andThen_def cockpit_world_def hyperspace_world_def
      confirmed_world_def ex_defs tc_defs ts_defs ht_defs)

subsection \<open>The timeline of a travel\<close>

text \<open>
  C6, as amended. From the idle state, after \<open>initiatePlanetTravel\<close> of the work
  planet and \<open>startTravelSequence\<close>, with no further input: the phase of the effect
  is approach once \<open>phaseTimings.hyperspace\<close> (4000 ms) has elapsed, arrived once
  \<open>phaseTimings.approach\<close> (3000 ms) more has elapsed, with no content requested yet,
  and content 500 ms later; by then the application's work content was requested
  exactly once and no timer is pending. The coordinator's own phase is traveling
  throughout.
\<close>

theorem travel_timeline:
  "map_option ht_currentPhase
     (advance 10 phaseTimings_hyperspace
        (startTravelSequence (initiatePlanetTravel work_planet (initial_world sc objs))))
     = Some Approach
   \<and> map_option ht_currentPhase
       (advance 10 (phaseTimings_hyperspace + phaseTimings_approach)
          (startTravelSequence (initiatePlanetTravel work_planet (initial_world sc objs))))
     = Some Arrived
   \<and> map_option contentRequests
       (advance 10 (phaseTimings_hyperspace + phaseTimings_approach)
          (startTravelSequence (initiatePlanetTravel work_planet (initial_world sc objs))))
     = Some []
   \<and> map_option ht_currentPhase
       (advance 10 (phaseTimings_hyperspace + phaseTimings_approach + 500)
          (startTravelSequence (initiatePlanetTravel work_planet (initial_world sc objs))))
     = Some Content
   \<and> map_option contentRequests
       (advance 10 (phaseTimings_hyperspace + phaseTimings_approach + 500)
          (startTravelSequence (initiatePlanetTravel work_planet (initial_world sc objs))))
     = Some [Work]
   \<and> map_option timers
       (advance 10 (phaseTimings_hyperspace + phaseTimings_approach + 500)
          (startTravelSequence (initiatePlanetTravel work_planet (initial_world sc objs))))
     = Some []
   \<and> map_option currentPhase
       (advance 10 (phaseTimings_hyperspace + phaseTimings_approach + 500)
          (startTravelSequence (initiatePlanetTravel work_planet (initial_world sc objs))))
     = Some Traveling"
  by (simp add: ex_defs tc_defs ht_defs ts_defs loop_defs)

text \<open>
  C6 as stated fails. When the hyperspace and approach durations of the effect have
  elapsed (7000 ms) its phase is arrived, not content, the coordinator's phase is
  traveling, and no content was requested. With the durations of
  \<open>TravelSystem.travelConfig\<close> instead (3000 and 2000 ms) the effect is still in
  hyperspace after the first and in approach after both.
\<close>

theorem content_not_reached_after_two_durations:
  "map_option ht_currentPhase
     (advance 10 (phaseTimings_hyperspace + phaseTimings_approach) confirmed_world)
     = Some Arrived
   \<and> map_option currentPhase
       (advance 10 (phaseTimings_hyperspace + phaseTimings_approach) confirmed_world)
     = Some Traveling
   \<and> map_option contentRequests
       (advance 10 (phaseTimings_hyperspace + phaseTimings_approach) confirmed_world)
     = Some []
   \<and> map_option ht_currentPhase (advance 10 travelConfig_hyperspace confirmed_world)
     = Some Hyperspace
   \<and> map_option ht_currentPhase
       (advance 10 (travelConfig_hyperspace + travelConfig_planetApproach) confirmed_world)
     = Some Approach"
  by (simp add: run_defs ex_defs tc_defs ht_defs ts_defs loop_defs
      travelConfig_hyperspace_def travelConfig_planetApproach_def)

subsection \<open>Returning to orbit\<close>



















subsection \<open>Timers that outlive a reset\<close>

text \<open>
  In a reachable state the table of phase timers is empty, so \<open>clearPhaseTimers\<close>
  cancels nothing: every pending timer stays pending.
\<close>

lemma clearPhaseTimers_cancels_nothing:
  "reachable w \<Longrightarrow> timers (clearPhaseTimers w) = timers w"
  using reachable_inv [of w] by (simp add: coordinator_inv_def clearPhaseTimers_def)

text \<open>
  C4 on two runs. After \<open>emergencyReturnToOrbit\<close> at 7200 ms the timer of
  \<open>showPlanetContent\<close> is still pending; it fires at 7500 ms, sets the phase of the
  idle effect to content and throws. After \<open>emergencyReturnToOrbit\<close> at 1000 ms
  the timer of the first travel is still pending; a second travel launched at 2000 ms
  is in hyperspace until that timer fires at 4000 ms and moves it to approach, 2000 ms
  before its own timer (due at 6000 ms). The timer of a simulated narration also
  survives the reset, and the narration still counts as playing.
\<close>

theorem orphaned_timers_fire:
  "map_option timers reset_after_arrival =
     Some [(5, 7500, HT_showPlanetContent), (6, 7700, Fade_execute), (7, 7700, Fade_execute)]
   \<and> map_option ht_currentPhase reset_after_arrival = Some Idle
   \<and> map_option ht_currentPhase (Option.bind reset_after_arrival (advance 10 7500)) = Some Content
   \<and> map_option uncaught (Option.bind reset_after_arrival (advance 10 7500)) =
       Some [TypeError ''Cannot read properties of null (reading id)'']
   \<and> map_option timers reset_in_hyperspace =
       Some [(3, 4000, HT_transitionToApproach), (4, 1500, Fade_execute), (5, 1500, Fade_execute)]
   \<and> map_option ht_startTime second_attempt = Some 2000
   \<and> map_option ht_currentPhase second_attempt = Some Hyperspace
   \<and> map_option ht_currentPhase (Option.bind second_attempt (advance 10 3999)) = Some Hyperspace
   \<and> map_option ht_currentPhase (Option.bind second_attempt (advance 10 4000)) = Some Approach
   \<and> map_option timers (Option.bind second_attempt (advance 10 4000)) =
       Some [(12, 6000, HT_transitionToApproach), (13, 7000, HT_arriveAtPlanet)]
   \<and> timers (emergencyReturnToOrbit simulated_audio_world) =
       [(1, 10000, TA_onAudioEnd), (2, 500, Fade_execute)]
   \<and> isAudioPlaying (emergencyReturnToOrbit simulated_audio_world)"
  by (simp add: run_defs ex_defs tc_defs ht_defs ts_defs ta_defs loop_defs
     simulated_audio_world_def hyperspace_world_def)


end
